theory Spec2Isabelle
  imports Main "HOL-Library.Word"
begin

section \<open>Go values used by package price\<close>

text \<open>
  A Go call either returns or panics. The only panics reachable from package price are the
  \<open>ErrNaN\<close> panics of \<open>math/big\<close> (an operation whose result would be a NaN).
\<close>

datatype 'a outcome = Panics | Returns 'a

fun bindO :: "'a outcome \<Rightarrow> ('a \<Rightarrow> 'b outcome) \<Rightarrow> 'b outcome" where
  "bindO Panics f = Panics"
| "bindO (Returns x) f = f x"

text \<open>
  Go's \<open>int64\<close> (and \<open>int\<close>, 64 bits wide on the platforms considered) is an integer
  kept in the two's complement range by \<open>wrap64\<close> after each operation that may leave it.
\<close>

definition MaxInt64 :: int where
  "MaxInt64 = 9223372036854775807"

definition MinInt64 :: int where
  "MinInt64 = - 9223372036854775808"

definition wrap64 :: "int \<Rightarrow> int" where
  "wrap64 i = (i + 9223372036854775808) mod 18446744073709551616 - 9223372036854775808"

definition is_int64 :: "int \<Rightarrow> bool" where
  "is_int64 i \<longleftrightarrow> MinInt64 \<le> i \<and> i \<le> MaxInt64"

text \<open>Go's \<open>/\<close> and \<open>%\<close> on integers truncate towards zero; the divisor is never 0 here.\<close>

definition go_quot :: "int \<Rightarrow> int \<Rightarrow> int" where
  "go_quot a b = sgn a * sgn b * (\<bar>a\<bar> div \<bar>b\<bar>)"

definition go_rem :: "int \<Rightarrow> int \<Rightarrow> int" where
  "go_rem a b = sgn a * (\<bar>a\<bar> mod \<bar>b\<bar>)"

section \<open>Binary magnitudes and rounding to nearest even\<close>

text \<open>
  A positive binary floating point magnitude is \<open>m * 2 ^ e\<close> for a natural \<open>m\<close> and an
  integer \<open>e\<close>. \<open>bitLen m\<close> is the number of bits of \<open>m\<close>; \<open>rne_shift m s\<close> is
  \<open>m / 2 ^ s\<close> rounded to the nearest integer, ties to the even one.
\<close>

fun bitLen :: "nat \<Rightarrow> nat" where
  "bitLen n = (if n = 0 then 0 else Suc (bitLen (n div 2)))"

declare bitLen.simps [simp del]

definition rne_shift :: "nat \<Rightarrow> nat \<Rightarrow> nat" where
  "rne_shift m s =
     (if s = 0 then m
      else let q = m div 2 ^ s; r = m mod 2 ^ s; h = 2 ^ (s - 1)
           in if h < r \<or> (r = h \<and> odd q) then q + 1 else q)"

text \<open>Canonical form: an odd mantissa (trailing zero bits moved into the exponent).\<close>

fun strip2 :: "nat \<Rightarrow> int \<Rightarrow> nat \<times> int" where
  "strip2 m e = (if m = 0 then (0, 0) else if even m then strip2 (m div 2) (e + 1) else (m, e))"

declare strip2.simps [simp del]

text \<open>The order of two magnitudes: \<open>-1\<close>, \<open>0\<close> or \<open>1\<close>.\<close>

definition ucmp :: "nat \<Rightarrow> int \<Rightarrow> nat \<Rightarrow> int \<Rightarrow> int" where
  "ucmp m1 e1 m2 e2 =
     (let e = min e1 e2; a = m1 * 2 ^ nat (e1 - e); b = m2 * 2 ^ nat (e2 - e)
      in if a < b then - 1 else if b < a then 1 else 0)"

text \<open>
  The quotient \<open>n / d\<close> as a magnitude with at least \<open>k\<close> bits whose lowest bit is sticky
  (set when the division left a remainder), so that a later rounding to fewer than
  \<open>k - 2\<close> bits rounds the exact quotient.
\<close>

definition quo_sticky :: "nat \<Rightarrow> nat \<Rightarrow> nat \<Rightarrow> nat \<times> int" where
  "quo_sticky k n d =
     (let s = (k + bitLen d) - bitLen n;
          q = (n * 2 ^ s) div d;
          r = (n * 2 ^ s) mod d
      in (2 * q + (if r = 0 then 0 else 1), - int s - 1))"

section \<open>math/big: the type Float\<close>

text \<open>
  A \<open>big.Float\<close> has a precision \<open>prec\<close> (mantissa bits; 0 for the zero value of the type),
  a sign and one of three forms. The rounding mode of every Float that package price uses as
  the receiver of an operation is that of a fresh \<open>new(big.Float)\<close>, ToNearestEven, so the
  mode is not a field here. Go stores the mantissa left-aligned with the exponent counted
  from its top bit (\<open>0.5 \<le> mantissa < 1\<close>); here the same magnitude is \<open>m * 2 ^ e\<close> with
  odd \<open>m\<close>, and \<open>goExp\<close> is Go's exponent.
\<close>

datatype form = form_zero | form_finite nat int | form_inf

record Float =
  prec :: nat
  neg :: bool
  form :: form

definition MaxExp :: int where
  "MaxExp = 2147483647"

definition MinExp :: int where
  "MinExp = - 2147483648"

definition goExp :: "nat \<Rightarrow> int \<Rightarrow> int" where
  "goExp m e = e + int (bitLen m)"

text \<open>The zero value of the type, \<open>big.Float{}\<close>.\<close>

definition Float0 :: Float where
  "Float0 = \<lparr>prec = 0, neg = False, form = form_zero\<rparr>"

text \<open>
  \<open>setExpAndRound\<close> and \<open>round\<close>: a magnitude \<open>m * 2 ^ e\<close> (\<open>m > 0\<close>) is stored at
  precision \<open>p\<close>. An exponent below \<open>MinExp\<close> underflows to zero, one above \<open>MaxExp\<close>
  overflows to infinity, also when the carry of rounding up pushes it there.
\<close>

definition round_mag :: "nat \<Rightarrow> nat \<Rightarrow> int \<Rightarrow> nat \<times> int" where
  "round_mag p m e =
     (let l = bitLen m
      in if l \<le> p then (m, e) else (rne_shift m (l - p), e + int (l - p)))"

definition setExpAndRound :: "nat \<Rightarrow> bool \<Rightarrow> nat \<Rightarrow> int \<Rightarrow> Float" where
  "setExpAndRound p ng m e =
     (if goExp m e < MinExp then \<lparr>prec = p, neg = ng, form = form_zero\<rparr>
      else if MaxExp < goExp m e then \<lparr>prec = p, neg = ng, form = form_inf\<rparr>
      else let (m', e') = round_mag p m e
           in if goExp m e < goExp m' e' \<and> MaxExp \<le> goExp m e
              then \<lparr>prec = p, neg = ng, form = form_inf\<rparr>
              else (case strip2 m' e' of (m'', e'') \<Rightarrow>
                      \<lparr>prec = p, neg = ng, form = form_finite m'' e''\<rparr>))"

text \<open>
  Every operation \<open>z.Op(x, y)\<close> writes into a receiver \<open>z\<close>, of which only the precision
  matters: a receiver of precision 0 (a fresh \<open>new(big.Float)\<close>, or the blank amount of a
  \<open>Price{}\<close>) takes the larger precision of the operands.
\<close>

definition umax32 :: "nat \<Rightarrow> nat \<Rightarrow> nat" where
  "umax32 a b = max a b"

definition zprec :: "Float \<Rightarrow> Float \<Rightarrow> Float \<Rightarrow> nat" where
  "zprec z x y = (if prec z = 0 then umax32 (prec x) (prec y) else prec z)"

text \<open>\<open>z.Set(x)\<close> once the precision \<open>p\<close> of \<open>z\<close> is resolved: rounds if \<open>p < x.prec\<close>.\<close>

definition Set_prec :: "nat \<Rightarrow> Float \<Rightarrow> Float" where
  "Set_prec p x =
     (case form x of
        form_finite m e \<Rightarrow>
          if p < prec x then setExpAndRound p (neg x) m e
          else \<lparr>prec = p, neg = neg x, form = form_finite m e\<rparr>
      | f \<Rightarrow> \<lparr>prec = p, neg = neg x, form = f\<rparr>)"

definition Float_Set :: "Float \<Rightarrow> Float \<Rightarrow> Float" where
  "Float_Set z x = Set_prec (if prec z = 0 then prec x else prec z) x"

text \<open>\<open>z.Copy(x)\<close> takes everything from \<open>x\<close>, the precision too.\<close>

definition Float_Copy :: "Float \<Rightarrow> Float \<Rightarrow> Float" where
  "Float_Copy z x = x"

text \<open>\<open>new(big.Float).SetInt64(i)\<close>: precision 64, exact.\<close>

definition SetInt64 :: "int \<Rightarrow> Float" where
  "SetInt64 i =
     (if i = 0 then \<lparr>prec = 64, neg = False, form = form_zero\<rparr>
      else case strip2 (nat \<bar>i\<bar>) 0 of (m, e) \<Rightarrow>
             \<lparr>prec = 64, neg = (i < 0), form = form_finite m e\<rparr>)"

text \<open>
  \<open>uadd\<close> and \<open>usub\<close>: the exact sum and difference of two magnitudes, then rounded.
  \<open>usub\<close> is called with the larger magnitude first; a zero difference is \<open>+0\<close>.
\<close>

definition uadd :: "nat \<Rightarrow> bool \<Rightarrow> nat \<Rightarrow> int \<Rightarrow> nat \<Rightarrow> int \<Rightarrow> Float" where
  "uadd p ng m1 e1 m2 e2 =
     (let e = min e1 e2
      in setExpAndRound p ng (m1 * 2 ^ nat (e1 - e) + m2 * 2 ^ nat (e2 - e)) e)"

definition usub :: "nat \<Rightarrow> bool \<Rightarrow> nat \<Rightarrow> int \<Rightarrow> nat \<Rightarrow> int \<Rightarrow> Float" where
  "usub p ng m1 e1 m2 e2 =
     (let e = min e1 e2; d = m1 * 2 ^ nat (e1 - e) - m2 * 2 ^ nat (e2 - e)
      in if d = 0 then \<lparr>prec = p, neg = False, form = form_zero\<rparr>
         else setExpAndRound p ng d e)"

text \<open>\<open>z.Add(x, y)\<close>; adding infinities of opposite signs panics.\<close>

definition Float_Add :: "Float \<Rightarrow> Float \<Rightarrow> Float \<Rightarrow> Float outcome" where
  "Float_Add z x y =
     (let p = zprec z x y
      in case (form x, form y) of
           (form_finite m1 e1, form_finite m2 e2) \<Rightarrow>
             Returns (if neg x = neg y then uadd p (neg x) m1 e1 m2 e2
                      else if 0 < ucmp m1 e1 m2 e2 then usub p (neg x) m1 e1 m2 e2
                      else usub p (\<not> neg x) m2 e2 m1 e1)
         | (form_inf, form_inf) \<Rightarrow>
             if neg x \<noteq> neg y then Panics else Returns (Set_prec p x)
         | (form_zero, form_zero) \<Rightarrow>
             Returns \<lparr>prec = p, neg = (neg x \<and> neg y), form = form_zero\<rparr>
         | (fx, fy) \<Rightarrow>
             if fx = form_inf \<or> fy = form_zero then Returns (Set_prec p x)
             else Returns (Set_prec p y))"

text \<open>\<open>z.Sub(x, y)\<close>; in the last case the result is \<open>z.Neg(y)\<close>.\<close>

definition Neg_prec :: "nat \<Rightarrow> Float \<Rightarrow> Float" where
  "Neg_prec p y = (Set_prec p y)\<lparr>neg := \<not> neg y\<rparr>"

definition Float_Sub :: "Float \<Rightarrow> Float \<Rightarrow> Float \<Rightarrow> Float outcome" where
  "Float_Sub z x y =
     (let p = zprec z x y
      in case (form x, form y) of
           (form_finite m1 e1, form_finite m2 e2) \<Rightarrow>
             Returns (if neg x \<noteq> neg y then uadd p (neg x) m1 e1 m2 e2
                      else if 0 < ucmp m1 e1 m2 e2 then usub p (neg x) m1 e1 m2 e2
                      else usub p (\<not> neg x) m2 e2 m1 e1)
         | (form_inf, form_inf) \<Rightarrow>
             if neg x = neg y then Panics else Returns (Set_prec p x)
         | (form_zero, form_zero) \<Rightarrow>
             Returns \<lparr>prec = p, neg = (neg x \<and> \<not> neg y), form = form_zero\<rparr>
         | (fx, fy) \<Rightarrow>
             if fx = form_inf \<or> fy = form_zero then Returns (Set_prec p x)
             else Returns (Neg_prec p y))"

text \<open>\<open>z.Mul(x, y)\<close>: the exact product, rounded; zero times infinity panics.\<close>

definition Float_Mul :: "Float \<Rightarrow> Float \<Rightarrow> Float \<Rightarrow> Float outcome" where
  "Float_Mul z x y =
     (let p = zprec z x y; ng = (neg x \<noteq> neg y)
      in case (form x, form y) of
           (form_finite m1 e1, form_finite m2 e2) \<Rightarrow>
             Returns (setExpAndRound p ng (m1 * m2) (e1 + e2))
         | (form_zero, form_inf) \<Rightarrow> Panics
         | (form_inf, form_zero) \<Rightarrow> Panics
         | (fx, fy) \<Rightarrow>
             if fx = form_inf \<or> fy = form_inf
             then Returns \<lparr>prec = p, neg = ng, form = form_inf\<rparr>
             else Returns \<lparr>prec = p, neg = ng, form = form_zero\<rparr>)"

text \<open>
  \<open>z.Quo(x, y)\<close>: the quotient is computed with more bits than the precision and a sticky
  bit for the remainder, then rounded; \<open>0 / 0\<close> and \<open>Inf / Inf\<close> panic.
\<close>

definition Float_Quo :: "Float \<Rightarrow> Float \<Rightarrow> Float \<Rightarrow> Float outcome" where
  "Float_Quo z x y =
     (let p = zprec z x y; ng = (neg x \<noteq> neg y)
      in case (form x, form y) of
           (form_finite m1 e1, form_finite m2 e2) \<Rightarrow>
             (case quo_sticky (p + 3) m1 m2 of (q, s) \<Rightarrow>
                Returns (setExpAndRound p ng q (e1 - e2 + s)))
         | (form_zero, form_zero) \<Rightarrow> Panics
         | (form_inf, form_inf) \<Rightarrow> Panics
         | (fx, fy) \<Rightarrow>
             if fx = form_zero \<or> fy = form_inf
             then Returns \<lparr>prec = p, neg = ng, form = form_zero\<rparr>
             else Returns \<lparr>prec = p, neg = ng, form = form_inf\<rparr>)"

text \<open>\<open>z.Abs(x)\<close>.\<close>

definition Float_Abs :: "Float \<Rightarrow> Float \<Rightarrow> Float" where
  "Float_Abs z x = (Float_Set z x)\<lparr>neg := False\<rparr>"

text \<open>\<open>x.Cmp(y)\<close>, through \<open>ord\<close>: \<open>-2\<close> for \<open>-Inf\<close>, \<open>-1\<close> below 0, 0 for both zeros.\<close>

definition ord :: "Float \<Rightarrow> int" where
  "ord x =
     (let m = (case form x of form_zero \<Rightarrow> 0 | form_finite _ _ \<Rightarrow> 1 | form_inf \<Rightarrow> 2)
      in if neg x then - m else m)"

definition Float_Cmp :: "Float \<Rightarrow> Float \<Rightarrow> int" where
  "Float_Cmp x y =
     (if ord x < ord y then - 1
      else if ord y < ord x then 1
      else case (form x, form y) of
             (form_finite m1 e1, form_finite m2 e2) \<Rightarrow>
               if neg x then ucmp m2 e2 m1 e1 else ucmp m1 e1 m2 e2
           | _ \<Rightarrow> 0)"

section \<open>float64 and package math\<close>

text \<open>
  An IEEE 754 double: \<open>F64 s m e\<close> is \<open>m * 2 ^ e\<close> with sign \<open>s\<close> (\<open>True\<close> is minus),
  \<open>m\<close> odd, or \<open>m = 0\<close> for the two zeros. Every operation computes the exact result and
  rounds it once to nearest even on the double grid (53 bits, smallest unit
  \<open>2 ^ - 1074\<close>), overflowing to infinity from \<open>2 ^ 1024\<close> on.
\<close>

datatype float64 = F64 bool nat int | F64_Inf bool | F64_NaN

definition round_f64 :: "bool \<Rightarrow> nat \<Rightarrow> int \<Rightarrow> float64" where
  "round_f64 s m e =
     (if m = 0 then F64 s 0 0
      else let q = max (goExp m e - 53) (- 1074);
               m' = (if q \<le> e then m else rne_shift m (nat (q - e)));
               e' = (if q \<le> e then e else q)
           in if m' = 0 then F64 s 0 0
              else if 1024 < goExp m' e' then F64_Inf s
              else (case strip2 m' e' of (m'', e'') \<Rightarrow> F64 s m'' e''))"

text \<open>A constant \<open>n / d\<close> of the source text converted to float64 by the compiler.\<close>

definition f64_of_ratio :: "bool \<Rightarrow> nat \<Rightarrow> nat \<Rightarrow> float64" where
  "f64_of_ratio s n d =
     (if n = 0 then F64 s 0 0
      else case quo_sticky 56 n d of (q, e) \<Rightarrow> round_f64 s q e)"

text \<open>\<open>float64(i)\<close> for an integer \<open>i\<close>.\<close>

definition float64_of_int :: "int \<Rightarrow> float64" where
  "float64_of_int i = round_f64 (i < 0) (nat \<bar>i\<bar>) 0"

fun f64_mul :: "float64 \<Rightarrow> float64 \<Rightarrow> float64" where
  "f64_mul (F64 s1 m1 e1) (F64 s2 m2 e2) = round_f64 (s1 \<noteq> s2) (m1 * m2) (e1 + e2)"
| "f64_mul (F64 s1 m1 e1) (F64_Inf s2) = (if m1 = 0 then F64_NaN else F64_Inf (s1 \<noteq> s2))"
| "f64_mul (F64_Inf s1) (F64 s2 m2 e2) = (if m2 = 0 then F64_NaN else F64_Inf (s1 \<noteq> s2))"
| "f64_mul (F64_Inf s1) (F64_Inf s2) = F64_Inf (s1 \<noteq> s2)"
| "f64_mul _ _ = F64_NaN"

fun f64_div :: "float64 \<Rightarrow> float64 \<Rightarrow> float64" where
  "f64_div (F64 s1 m1 e1) (F64 s2 m2 e2) =
     (if m2 = 0 then (if m1 = 0 then F64_NaN else F64_Inf (s1 \<noteq> s2))
      else if m1 = 0 then F64 (s1 \<noteq> s2) 0 0
      else (case quo_sticky 56 m1 m2 of (q, e) \<Rightarrow> round_f64 (s1 \<noteq> s2) q (e1 - e2 + e)))"
| "f64_div (F64 s1 m1 e1) (F64_Inf s2) = F64 (s1 \<noteq> s2) 0 0"
| "f64_div (F64_Inf s1) (F64 s2 m2 e2) = F64_Inf (s1 \<noteq> s2)"
| "f64_div _ _ = F64_NaN"

text \<open>The comparisons \<open>a < b\<close>, \<open>a >= b\<close> and \<open>a > b\<close>; all are false when an operand is a NaN.\<close>

fun f64_less :: "float64 \<Rightarrow> float64 \<Rightarrow> bool" where
  "f64_less (F64 s1 m1 e1) (F64 s2 m2 e2) =
     (if m1 = 0 then (m2 \<noteq> 0 \<and> \<not> s2)
      else if m2 = 0 then s1
      else if s1 \<noteq> s2 then s1
      else if s1 then ucmp m2 e2 m1 e1 < 0 else ucmp m1 e1 m2 e2 < 0)"
| "f64_less (F64 s1 m1 e1) (F64_Inf s2) = (\<not> s2)"
| "f64_less (F64_Inf s1) (F64 s2 m2 e2) = s1"
| "f64_less (F64_Inf s1) (F64_Inf s2) = (s1 \<and> \<not> s2)"
| "f64_less _ _ = False"

fun f64_ge :: "float64 \<Rightarrow> float64 \<Rightarrow> bool" where
  "f64_ge F64_NaN b = False"
| "f64_ge a F64_NaN = False"
| "f64_ge a b = (\<not> f64_less a b)"

definition f64_gt :: "float64 \<Rightarrow> float64 \<Rightarrow> bool" where
  "f64_gt a b = f64_less b a"

text \<open>
  \<open>math.Modf\<close>: the integer part (towards zero) and the fractional part, both with the
  sign of the argument; \<open>Modf(\<plusminus>Inf) = (\<plusminus>Inf, NaN)\<close>.
\<close>

fun Modf :: "float64 \<Rightarrow> float64 \<times> float64" where
  "Modf (F64 s m e) =
     (if 0 \<le> e then (F64 s m e, F64 s 0 0)
      else (round_f64 s (m div 2 ^ nat (- e)) 0, round_f64 s (m mod 2 ^ nat (- e)) e))"
| "Modf (F64_Inf s) = (F64_Inf s, F64_NaN)"
| "Modf F64_NaN = (F64_NaN, F64_NaN)"

text \<open>\<open>math.Round\<close>: the nearest integer, halves away from zero, the sign kept.\<close>

fun Round :: "float64 \<Rightarrow> float64" where
  "Round (F64 s m e) =
     (if 0 \<le> e then F64 s m e
      else round_f64 s ((m + 2 ^ nat (- e - 1)) div 2 ^ nat (- e)) 0)"
| "Round (F64_Inf s) = F64_Inf s"
| "Round F64_NaN = F64_NaN"

text \<open>
  The conversion \<open>int64(f)\<close> truncates towards zero. For a value outside the range of
  int64 the Go specification leaves the result to the implementation: amd64 yields
  \<open>MinInt64\<close> for every such value (arm64 agrees for values below the range, the only
  out-of-range conversions whose result package price goes on to use in payable rounding).
\<close>

fun int64_of_float64 :: "float64 \<Rightarrow> int" where
  "int64_of_float64 (F64 s m e) =
     (let i = (if 0 \<le> e then int m * 2 ^ nat e else int (m div 2 ^ nat (- e)));
          v = (if s then - i else i)
      in if is_int64 v then v else MinInt64)"
| "int64_of_float64 (F64_Inf s) = MinInt64"
| "int64_of_float64 F64_NaN = MinInt64"

text \<open>\<open>x.Float64()\<close>: the nearest float64 of a Float (the accuracy result is dropped).\<close>

definition Float64 :: "Float \<Rightarrow> float64" where
  "Float64 x =
     (case form x of
        form_zero \<Rightarrow> F64 (neg x) 0 0
      | form_finite m e \<Rightarrow> round_f64 (neg x) m e
      | form_inf \<Rightarrow> F64_Inf (neg x))"

text \<open>
  \<open>new(big.Float).SetFloat64(x)\<close>: precision 53, exact. \<open>big.NewFloat(x)\<close> is the same,
  and both panic for a NaN (the value given here for a NaN is never used).
\<close>

fun SetFloat64 :: "float64 \<Rightarrow> Float" where
  "SetFloat64 (F64 s m e) =
     (if m = 0 then \<lparr>prec = 53, neg = s, form = form_zero\<rparr>
      else \<lparr>prec = 53, neg = s, form = form_finite m e\<rparr>)"
| "SetFloat64 (F64_Inf s) = \<lparr>prec = 53, neg = s, form = form_inf\<rparr>"
| "SetFloat64 F64_NaN = Float0"

fun NewFloat :: "float64 \<Rightarrow> Float outcome" where
  "NewFloat F64_NaN = Panics"
| "NewFloat x = Returns (SetFloat64 x)"

section \<open>price.go: the type Price\<close>

record Price =
  amount :: Float
  currency :: string

text \<open>
  A Go function with results \<open>(T, error)\<close> returns a pair whose second component is
  \<open>None\<close> for \<open>nil\<close> and \<open>Some msg\<close> for \<open>errors.New(msg)\<close>.
\<close>

type_synonym error = "string option"

definition RoundingModeFloor :: string where
  "RoundingModeFloor = ''floor''"

definition RoundingModeCeil :: string where
  "RoundingModeCeil = ''ceil''"

definition RoundingModeHalfUp :: string where
  "RoundingModeHalfUp = ''halfup''"

definition RoundingModeHalfDown :: string where
  "RoundingModeHalfDown = ''halfdown''"

definition NewFromFloat :: "float64 \<Rightarrow> string \<Rightarrow> Price outcome" where
  "NewFromFloat a c = bindO (NewFloat a) (\<lambda>f. Returns \<lparr>amount = f, currency = c\<rparr>)"

definition NewFromBigFloat :: "Float \<Rightarrow> string \<Rightarrow> Price" where
  "NewFromBigFloat a c = \<lparr>amount = a, currency = c\<rparr>"

definition NewZero :: "string \<Rightarrow> Price" where
  "NewZero c = \<lparr>amount = SetInt64 0, currency = c\<rparr>"

text \<open>The blank \<open>Price{currency: c}\<close> that the currency guard hands out.\<close>

definition blank_Price :: "string \<Rightarrow> Price" where
  "blank_Price c = \<lparr>amount = Float0, currency = c\<rparr>"

definition NewFromInt :: "64 word \<Rightarrow> 64 word \<Rightarrow> string \<Rightarrow> Price outcome" where
  "NewFromInt a precision c =
     (let amountF = SetInt64 (sint a)
      in if precision = 0 then Returns \<lparr>amount = SetInt64 0, currency = c\<rparr>
         else let precicionF = SetInt64 (sint precision)
              in bindO (Float_Quo Float0 amountF precicionF)
                   (\<lambda>q. Returns \<lparr>amount = q, currency = c\<rparr>))"

definition Currency :: "Price \<Rightarrow> string" where
  "Currency p = currency p"

definition Amount :: "Price \<Rightarrow> Float" where
  "Amount p = amount p"

definition Clone :: "Price \<Rightarrow> Price" where
  "Clone p = \<lparr>amount = Float_Set Float0 (amount p), currency = currency p\<rparr>"

definition Equal :: "Price \<Rightarrow> Price \<Rightarrow> bool" where
  "Equal p cmp =
     (if currency p \<noteq> currency cmp then False
      else Float_Cmp (amount p) (amount cmp) = 0)"

text \<open>
  \<open>LikelyEqual\<close>: the tolerance is the float64 constant \<open>0.000000001\<close>. The subtraction
  panics when both amounts are the same infinity.
\<close>

definition LikelyEqual :: "Price \<Rightarrow> Price \<Rightarrow> bool outcome" where
  "LikelyEqual p cmp =
     (if currency p \<noteq> currency cmp then Returns False
      else bindO (Float_Sub Float0 (amount p) (amount cmp))
             (\<lambda>diff. let absDiff = Float_Abs Float0 diff
                      in Returns (Float_Cmp absDiff
                                    (SetFloat64 (f64_of_ratio False 1 1000000000)) = - 1)))"

definition IsLessThenValue :: "Price \<Rightarrow> Float \<Rightarrow> bool" where
  "IsLessThenValue p a = (Float_Cmp (amount p) a = - 1)"

definition IsNegative :: "Price \<Rightarrow> bool" where
  "IsNegative p = IsLessThenValue p (SetFloat64 (F64 False 0 0))"

text \<open>\<open>IsZero\<close>: the second comparison runs only when the first is false.\<close>

definition IsZero :: "Price \<Rightarrow> bool outcome" where
  "IsZero p =
     bindO (LikelyEqual p (NewZero (Currency p)))
       (\<lambda>b. if b then Returns True
             else bindO (NewFromFloat (F64 False 0 0) (Currency p)) (LikelyEqual p))"

definition currencyGuard :: "Price \<Rightarrow> Price \<Rightarrow> (Price \<times> error) outcome" where
  "currencyGuard p check =
     (if currency p = currency check then Returns (blank_Price (currency check), None)
      else bindO (IsZero p)
        (\<lambda>pz. if pz then Returns (blank_Price (currency check), None)
               else bindO (IsZero check)
                 (\<lambda>cz. if cz then Returns (blank_Price (currency p), None)
                        else Returns (NewZero (currency p),
                               Some ''cannot calculate prices in different currencies''))))"

definition Add :: "Price \<Rightarrow> Price \<Rightarrow> (Price \<times> error) outcome" where
  "Add p add =
     bindO (currencyGuard p add)
       (\<lambda>(newPrice, err).
          if err \<noteq> None then Returns (newPrice, err)
          else bindO (Float_Add (amount newPrice) (amount p) (amount add))
                 (\<lambda>a. Returns (newPrice\<lparr>amount := a\<rparr>, None)))"

definition Sub :: "Price \<Rightarrow> Price \<Rightarrow> (Price \<times> error) outcome" where
  "Sub p sub =
     bindO (currencyGuard p sub)
       (\<lambda>(newPrice, err).
          if err \<noteq> None then Returns (newPrice, err)
          else bindO (Float_Sub (amount newPrice) (amount p) (amount sub))
                 (\<lambda>a. Returns (newPrice\<lparr>amount := a\<rparr>, None)))"

definition Inverse :: "Price \<Rightarrow> Price outcome" where
  "Inverse p =
     bindO (Float_Mul Float0 (amount p) (SetFloat64 (float64_of_int (- 1))))
       (\<lambda>a. Returns (p\<lparr>amount := a\<rparr>))"

definition Multiply :: "Price \<Rightarrow> 64 word \<Rightarrow> Price outcome" where
  "Multiply p qty =
     bindO (Float_Mul Float0 (amount p) (SetInt64 (sint qty)))
       (\<lambda>a. Returns \<lparr>amount = a, currency = currency p\<rparr>)"

definition precisionF :: "64 word \<Rightarrow> Float" where
  "precisionF precision = SetInt64 (sint precision)"

text \<open>
  \<open>strings.ToLower\<close> on the bytes of an ASCII string. (On other strings Go maps each
  code point through the Unicode tables; the theorems below that depend on the result take
  an ASCII currency.)
\<close>

definition lower_byte :: "char \<Rightarrow> char" where
  "lower_byte c =
     (let n = (of_char c :: nat)
      in if 65 \<le> n \<and> n \<le> 90 then char_of (n + 32) else c)"

definition ToLower :: "string \<Rightarrow> string" where
  "ToLower s = map lower_byte s"

definition is_ascii :: "string \<Rightarrow> bool" where
  "is_ascii s = list_all (\<lambda>c. (of_char c :: nat) < 128) s"

definition payableRoundingPrecision :: "Price \<Rightarrow> string \<times> 64 word" where
  "payableRoundingPrecision p =
     (if ToLower (currency p) = ''miles'' \<or> ToLower (currency p) = ''points''
      then (RoundingModeFloor, 1)
      else (RoundingModeHalfUp, 100))"

definition GetPayableByRoundingMode :: "Price \<Rightarrow> string \<Rightarrow> 64 word \<Rightarrow> Price outcome" where
  "GetPayableByRoundingMode p mode precision =
     (let newPrice = blank_Price (currency p);
          amountForRound = Float_Copy Float0 (amount p);
          negative = (if IsNegative p then - 1 else 1)
      in bindO (Float_Mul Float0 amountForRound (precisionF precision))
           (\<lambda>scaled.
              let amountTruncatedFloat = Float64 scaled;
                  (integerPart, fractionalPart) = Modf amountTruncatedFloat;
                  amountTruncatedInt = int64_of_float64 integerPart;
                  valueAfterPrecision =
                    f64_mul (f64_div (Round (f64_mul fractionalPart (float64_of_int 1000)))
                                     (float64_of_int 100))
                            (float64_of_int negative)
              in if f64_ge amountTruncatedFloat (float64_of_int MaxInt64)
                 then Returns (newPrice\<lparr>amount := amount p\<rparr>)
                 else
                   let amountTruncatedInt' =
                        (if mode = RoundingModeCeil then
                           (if negative = 1 \<and> f64_gt valueAfterPrecision (float64_of_int 0)
                            then wrap64 (amountTruncatedInt + negative) else amountTruncatedInt)
                         else if mode = RoundingModeHalfUp then
                           (if f64_ge valueAfterPrecision (float64_of_int 5)
                            then wrap64 (amountTruncatedInt + negative) else amountTruncatedInt)
                         else if mode = RoundingModeHalfDown then
                           (if f64_gt valueAfterPrecision (float64_of_int 5)
                            then wrap64 (amountTruncatedInt + negative) else amountTruncatedInt)
                         else if mode = RoundingModeFloor then
                           (if negative = - 1 \<and> f64_gt valueAfterPrecision (float64_of_int 0)
                            then wrap64 (amountTruncatedInt + negative) else amountTruncatedInt)
                         else amountTruncatedInt)
                   in bindO (Float_Quo Float0 (SetInt64 amountTruncatedInt')
                               (precisionF precision))
                        (\<lambda>amountRounded. Returns (newPrice\<lparr>amount := amountRounded\<rparr>))))"

definition GetPayable :: "Price \<Rightarrow> Price outcome" where
  "GetPayable p =
     (case payableRoundingPrecision p of
        (mode, precision) \<Rightarrow> GetPayableByRoundingMode p mode precision)"

subsection \<open>Slices and counting loops\<close>

text \<open>
  A slice is a list; indexing outside it panics. \<open>for_loop i n body s\<close> is
  \<open>for i := i; i < n; i++ { s = body(i, s) }\<close>.
\<close>

definition set_at :: "'a list \<Rightarrow> int \<Rightarrow> 'a \<Rightarrow> 'a list outcome" where
  "set_at xs i v = (if 0 \<le> i \<and> nat i < length xs then Returns (xs[nat i := v]) else Panics)"

definition get_at :: "'a list \<Rightarrow> int \<Rightarrow> 'a outcome" where
  "get_at xs i = (if 0 \<le> i \<and> nat i < length xs then Returns (xs ! nat i) else Panics)"

function for_loop :: "int \<Rightarrow> int \<Rightarrow> (int \<Rightarrow> 's \<Rightarrow> 's outcome) \<Rightarrow> 's \<Rightarrow> 's outcome" where
  "for_loop i n body s =
     (if i < n
      then (case body i s of Panics \<Rightarrow> Panics | Returns s' \<Rightarrow> for_loop (i + 1) n body s')
      else Returns s)"
  by pat_completeness auto

termination
  by (relation "measure (\<lambda>(i, n, body, s). nat (n - i))") auto

declare for_loop.simps [simp del]

subsection \<open>SplitInPayables and SumAll\<close>

text \<open>
  \<open>make([]T, count)\<close> is a list of \<open>count\<close> zero values (memory is not bounded here).
  The three loops of the source are kept as loops over the index.
\<close>

definition SplitInPayables :: "Price \<Rightarrow> 64 word \<Rightarrow> (Price list \<times> error) outcome" where
  "SplitInPayables p count =
     (if sint count \<le> 0 then Returns ([], Some ''split must be higher than zero'')
      else
        case payableRoundingPrecision p of (mode, precision) \<Rightarrow>
        bindO (GetPayable p) (\<lambda>payable.
        bindO (if IsNegative p
               then bindO (GetPayable p) (\<lambda>q. bindO (Inverse q) (\<lambda>r. Returns (Amount r)))
               else Returns (Amount payable)) (\<lambda>amount.
        bindO (Float_Mul Float0 amount (precisionF precision)) (\<lambda>scaled.
        let amountToMatchFloat = Float64 scaled;
            amountToMatchInt = int64_of_float64 amountToMatchFloat;
            splittedAmountModulo = go_rem amountToMatchInt (sint count);
            splittedAmount = go_quot amountToMatchInt (sint count)
        in
        bindO (for_loop 0 (sint count) (\<lambda>i xs. set_at xs i splittedAmount)
                 (replicate (nat (sint count)) 0)) (\<lambda>splittedAmounts0.
        bindO (for_loop 0 splittedAmountModulo
                 (\<lambda>i xs. bindO (get_at xs i) (\<lambda>x. set_at xs i (wrap64 (x + 1))))
                 splittedAmounts0) (\<lambda>splittedAmounts.
        bindO (for_loop 0 (sint count)
                 (\<lambda>i prices.
                    bindO (get_at splittedAmounts i) (\<lambda>sa.
                    bindO (NewFromInt
                             (word_of_int (if IsNegative p then wrap64 (sa * (- 1)) else sa))
                             precision (Currency p)) (\<lambda>pr.
                    set_at prices i pr)))
                 (replicate (nat (sint count)) (blank_Price []))) (\<lambda>prices.
        Returns (prices, None))))))))"

fun SumAll_loop :: "Price \<Rightarrow> Price list \<Rightarrow> (Price \<times> error) outcome" where
  "SumAll_loop result [] = Returns (result, None)"
| "SumAll_loop result (price # rest) =
     (case Add result price of
        Panics \<Rightarrow> Panics
      | Returns (r, err) \<Rightarrow> if err \<noteq> None then Returns (r, err) else SumAll_loop r rest)"

definition SumAll :: "Price list \<Rightarrow> (Price \<times> error) outcome" where
  "SumAll prices =
     (case prices of
        [] \<Rightarrow> Returns (NewZero [], Some ''no price given'')
      | p # rest \<Rightarrow> SumAll_loop (Clone p) rest)"

section \<open>Encoding an amount as text\<close>

text \<open>
  \<open>x.String()\<close> is \<open>x.Text('g', 10)\<close>: the exact decimal expansion of the Float is
  rounded to 10 significant digits (ties to even) and written in \<open>%e\<close> or \<open>%f\<close> style.
  A decimal is a list of digits \<open>d1 d2 ...\<close> without trailing zeros and an exponent \<open>x\<close>,
  standing for \<open>0.d1d2... * 10 ^ x\<close>.
\<close>

type_synonym decimal = "nat list \<times> int"

fun digits_acc :: "nat \<Rightarrow> nat list \<Rightarrow> nat list" where
  "digits_acc n acc = (if n = 0 then acc else digits_acc (n div 10) (n mod 10 # acc))"

declare digits_acc.simps [simp del]

definition trim :: "decimal \<Rightarrow> decimal" where
  "trim d =
     (let ds = rev (dropWhile (\<lambda>c. c = 0) (rev (fst d)))
      in if ds = [] then ([], 0) else (ds, snd d))"

definition decimal_init :: "nat \<Rightarrow> int \<Rightarrow> decimal" where
  "decimal_init m e =
     (if 0 \<le> e
      then (let ds = digits_acc (m * 2 ^ nat e) [] in trim (ds, int (length ds)))
      else (let ds = digits_acc (m * 5 ^ nat (- e)) [] in trim (ds, int (length ds) + e)))"

definition shouldRoundUp :: "decimal \<Rightarrow> nat \<Rightarrow> bool" where
  "shouldRoundUp d n =
     (if fst d ! n = 5 \<and> n + 1 = length (fst d)
      then 0 < n \<and> odd (fst d ! (n - 1))
      else 5 \<le> fst d ! n)"

definition roundUp :: "decimal \<Rightarrow> nat \<Rightarrow> decimal" where
  "roundUp d n =
     (let pre = rev (dropWhile (\<lambda>c. 9 \<le> c) (rev (take n (fst d))))
      in if pre = [] then ([1], snd d + 1) else (butlast pre @ [last pre + 1], snd d))"

definition roundDown :: "decimal \<Rightarrow> nat \<Rightarrow> decimal" where
  "roundDown d n = trim (take n (fst d), snd d)"

definition decimal_round :: "decimal \<Rightarrow> int \<Rightarrow> decimal" where
  "decimal_round d n =
     (if n < 0 \<or> int (length (fst d)) \<le> n then d
      else if shouldRoundUp d (nat n) then roundUp d (nat n) else roundDown d (nat n))"

definition digit_char :: "nat \<Rightarrow> char" where
  "digit_char d = ''0123456789'' ! d"

text \<open>
  \<open>%e\<close> with \<open>digs\<close> digits after the point, and \<open>%f\<close> likewise: the digit at place
  \<open>exponent + i\<close> for each \<open>i < digs\<close>, \<open>0\<close> where the decimal has no digit.
\<close>

definition fmtE :: "int \<Rightarrow> decimal \<Rightarrow> string" where
  "fmtE digs d =
     (let ds = fst d;
          first = (if ds = [] then CHR ''0'' else digit_char (hd ds));
          m = min (int (length ds)) (digs + 1);
          more = (if 0 < digs
                  then CHR ''.'' # map digit_char (take (nat m - 1) (tl ds))
                       @ replicate (nat (digs + 1 - max 1 m)) CHR ''0''
                  else []);
          ex = (if ds = [] then 0 else snd d - 1);
          sgn_ch = (if ex < 0 then CHR ''-'' else CHR ''+'');
          a = nat \<bar>ex\<bar>;
          exds = (if a = 0 then [0] else digits_acc a [])
      in first # more @ CHR ''e'' # sgn_ch # (if a < 10 then ''0'' else [])
           @ map digit_char exds)"

definition fmtF :: "int \<Rightarrow> decimal \<Rightarrow> string" where
  "fmtF digs d =
     (let ds = fst d;
          ipart = (if 0 < snd d
                   then map digit_char (take (nat (snd d)) ds)
                        @ replicate (nat (snd d) - length ds) CHR ''0''
                   else ''0'');
          frac = (if 0 < digs
                  then CHR ''.'' #
                       take (nat digs)
                         (replicate (nat (- snd d)) CHR ''0''
                          @ map digit_char (drop (nat (snd d)) ds)
                          @ replicate (nat digs) CHR ''0'')
                  else [])
      in ipart @ frac)"

definition Float_String :: "Float \<Rightarrow> string" where
  "Float_String x =
     (if neg x then ''-'' else []) @
     (case form x of
        form_inf \<Rightarrow> (if neg x then [] else ''+'') @ ''Inf''
      | f \<Rightarrow>
         (let d0 = (case f of form_finite m e \<Rightarrow> decimal_init m e | _ \<Rightarrow> ([], 0));
              d = decimal_round d0 10;
              n = int (length (fst d));
              eprec = (if n < 10 \<and> snd d \<le> n then n else 10);
              ex = snd d - 1
          in if ex < - 4 \<or> eprec \<le> ex then fmtE (min 10 n - 1) d
             else fmtF (max ((if snd d < 10 then n else 10) - snd d) 0) d))"

text \<open>
  \<open>z.Parse(s, 10)\<close> for a fresh \<open>z\<close> (precision 64): an optional sign, decimal digits
  with at most one point, an optional exponent (\<open>e\<close> or \<open>E\<close> for a power of ten, \<open>p\<close> or
  \<open>P\<close> for a power of two), or an infinity. The digits are taken as an integer, and the
  power of five of the radix point and exponent is applied by one rounded division or
  multiplication; \<open>pow5\<close> is exact up to \<open>5 ^ 27\<close> and computed at 128 bits beyond.
  \<open>None\<close> is a parse error.
\<close>

definition is_digit :: "char \<Rightarrow> bool" where
  "is_digit c = (let n = (of_char c :: nat) in 48 \<le> n \<and> n \<le> 57)"

definition digit_val :: "char \<Rightarrow> nat" where
  "digit_val c = (of_char c :: nat) - 48"

definition digits_val :: "string \<Rightarrow> nat" where
  "digits_val cs = foldl (\<lambda>a c. 10 * a + digit_val c) 0 cs"

definition scanSign :: "string \<Rightarrow> bool \<times> string" where
  "scanSign s =
     (case s of
        c # rest \<Rightarrow> if c = CHR ''-'' then (True, rest)
                    else if c = CHR ''+'' then (False, rest) else (False, s)
      | [] \<Rightarrow> (False, s))"

text \<open>The mantissa: integer digits, fraction digits, and the rest; \<open>None\<close> without a digit.\<close>

definition scanMantissa :: "string \<Rightarrow> (string \<times> string \<times> string) option" where
  "scanMantissa s =
     (let ip = takeWhile is_digit s; r1 = dropWhile is_digit s;
          (fp, r2) = (case r1 of
                        c # rest \<Rightarrow> if c = CHR ''.''
                                     then (takeWhile is_digit rest, dropWhile is_digit rest)
                                     else ([], r1)
                      | [] \<Rightarrow> ([], r1))
      in if ip = [] \<and> fp = [] then None else Some (ip, fp, r2))"

text \<open>The exponent: its base (10, 2, or 0 when absent), its value, and the rest.\<close>

definition scanExponent :: "string \<Rightarrow> (nat \<times> int \<times> string) option" where
  "scanExponent s =
     (case s of
        [] \<Rightarrow> Some (0, 0, [])
      | c # rest \<Rightarrow>
          if c = CHR ''e'' \<or> c = CHR ''E'' \<or> c = CHR ''p'' \<or> c = CHR ''P''
          then (case scanSign rest of (ng, r1) \<Rightarrow>
                  let ds = takeWhile is_digit r1; r2 = dropWhile is_digit r1
                  in if ds = [] then None
                     else Some (if c = CHR ''e'' \<or> c = CHR ''E'' then 10 else 2,
                                (if ng then - int (digits_val ds) else int (digits_val ds)), r2))
          else Some (0, 0, s))"

function pow5_loop :: "nat \<Rightarrow> Float \<Rightarrow> Float \<Rightarrow> Float outcome" where
  "pow5_loop n z f =
     (if n = 0 then Returns z
      else bindO (if odd n then Float_Mul z z f else Returns z)
             (\<lambda>z'. bindO (Float_Mul f f f) (\<lambda>f'. pow5_loop (n div 2) z' f')))"
  by pat_completeness auto

termination
proof (relation "measure (\<lambda>(n, z, f). n)")
qed auto

declare pow5_loop.simps [simp del]

definition pow5 :: "nat \<Rightarrow> nat \<Rightarrow> Float outcome" where
  "pow5 p n =
     (if n \<le> 27 then Returns ((SetInt64 (int (5 ^ n)))\<lparr>prec := p\<rparr>)
      else pow5_loop (n - 27) ((SetInt64 (int (5 ^ 27)))\<lparr>prec := p\<rparr>)
             ((SetInt64 5)\<lparr>prec := p + 64\<rparr>))"

definition Float_Parse :: "string \<Rightarrow> Float option outcome" where
  "Float_Parse s =
     (if s = ''Inf'' \<or> s = ''inf'' then Returns (Some \<lparr>prec = 0, neg = False, form = form_inf\<rparr>)
      else if s = ''+Inf'' \<or> s = ''+inf''
      then Returns (Some \<lparr>prec = 0, neg = False, form = form_inf\<rparr>)
      else if s = ''-Inf'' \<or> s = ''-inf''
      then Returns (Some \<lparr>prec = 0, neg = True, form = form_inf\<rparr>)
      else
        case scanSign s of (ng, r0) \<Rightarrow>
        case scanMantissa r0 of
          None \<Rightarrow> Returns None
        | Some (ip, fp, r1) \<Rightarrow>
           (case scanExponent r1 of
              None \<Rightarrow> Returns None
            | Some (ebase, ex, r2) \<Rightarrow>
               if r2 \<noteq> [] then Returns None
               else
                 let mant = digits_val (ip @ fp);
                     d = - int (length fp);
                     exp5 = d + (if ebase = 10 then ex else 0);
                     exp2 = d + (if ebase = 0 then 0 else ex)
                 in if mant = 0 then Returns (Some \<lparr>prec = 64, neg = ng, form = form_zero\<rparr>)
                    else if goExp mant exp2 < MinExp \<or> MaxExp < goExp mant exp2
                    then Returns None
                    else
                      case strip2 mant exp2 of (m, e) \<Rightarrow>
                      let z = \<lparr>prec = 64, neg = ng, form = form_finite m e\<rparr>
                      in if exp5 = 0 then Returns (Some (setExpAndRound 64 ng mant exp2))
                         else bindO (pow5 128 (nat \<bar>exp5\<bar>))
                                (\<lambda>p. bindO (if exp5 < 0 then Float_Quo z z p else Float_Mul z z p)
                                        (\<lambda>r. Returns (Some r)))))"

text \<open>
  The wire shape is the Go struct \<open>priceJSON\<close>. \<open>encoding/json\<close> is not part of the
  repository: the JSON text that \<open>json.Marshal\<close> writes for two strings is read back by
  \<open>json.Unmarshal\<close> as the same two strings (for valid UTF-8), so the text on the wire is
  represented by the \<open>priceJSON\<close> value it carries.
\<close>

record priceJSON =
  pjAmount :: string
  pjCurrency :: string

definition MarshalText :: "Price \<Rightarrow> priceJSON \<times> error" where
  "MarshalText p = (\<lparr>pjAmount = Float_String (amount p), pjCurrency = currency p\<rparr>, None)"

text \<open>\<open>p.UnmarshalText(b)\<close> returns the updated receiver and the error.\<close>

definition UnmarshalText :: "Price \<Rightarrow> priceJSON \<Rightarrow> (Price \<times> error) outcome" where
  "UnmarshalText p pj =
     bindO (Float_Parse (pjAmount pj))
       (\<lambda>r. case r of
               None \<Rightarrow> Returns (p, Some ''parse error'')
             | Some am \<Rightarrow> Returns (\<lparr>amount = am, currency = pjCurrency pj\<rparr>, None))"

section \<open>Charges: the ledger\<close>

record Charge =
  Price :: Price
  Value :: Price
  Type :: string
  Reference :: string

datatype ChargeQualifier = ChargeQualifier string string

text \<open>The zero value \<open>Charge{}\<close>.\<close>

definition Charge0 :: Charge where
  "Charge0 = \<lparr>Price = blank_Price [], Value = blank_Price [], Type = [], Reference = []\<rparr>"

text \<open>
  A Go map is a reference: a \<open>Charges\<close> value holds the address of its map, or \<open>nil\<close>,
  and copying the struct copies the address. The heap is the list of all maps made so far,
  the address of a map is its index. A map is a list of entries with distinct keys; a
  \<open>range\<close> loop visits them in the order of the list (Go leaves the order open).
\<close>

type_synonym charge_map = "(ChargeQualifier \<times> Charge) list"

type_synonym heap = "charge_map list"

record Charges =
  chargesByQualifier :: "nat option"

fun map_put :: "'k \<Rightarrow> 'v \<Rightarrow> ('k \<times> 'v) list \<Rightarrow> ('k \<times> 'v) list" where
  "map_put k v [] = [(k, v)]"
| "map_put k v ((k', v') # rest) = (if k = k' then (k, v) # rest else (k', v') # map_put k v rest)"

definition make_map :: "heap \<Rightarrow> nat \<times> heap" where
  "make_map h = (length h, h @ [[]])"

definition entries :: "heap \<Rightarrow> nat option \<Rightarrow> charge_map" where
  "entries h a = (case a of None \<Rightarrow> [] | Some i \<Rightarrow> if i < length h then h ! i else [])"

definition store :: "heap \<Rightarrow> nat \<Rightarrow> ChargeQualifier \<Rightarrow> Charge \<Rightarrow> heap" where
  "store h i k v = h[i := map_put k v (h ! i)]"

definition Charge_Add :: "Charge \<Rightarrow> Charge \<Rightarrow> (Charge \<times> error) outcome" where
  "Charge_Add p add =
     (if Type p \<noteq> Type add then Returns (Charge0, Some ''charge type mismatch'')
      else bindO (Add (Price p) (Price add))
        (\<lambda>(newPrice, err).
           if err \<noteq> None then Returns (Charge0, err)
           else bindO (Add (Value p) (Value add))
             (\<lambda>(newValue, err).
                if err \<noteq> None then Returns (Charge0, err)
                else Returns (p\<lparr>Price := newPrice, Value := newValue\<rparr>, None))))"

definition Charge_GetPayable :: "Charge \<Rightarrow> Charge outcome" where
  "Charge_GetPayable p =
     bindO (GetPayable (Value p))
       (\<lambda>v. bindO (GetPayable (Price p)) (\<lambda>pr. Returns (p\<lparr>Value := v, Price := pr\<rparr>)))"

definition Charge_Mul :: "Charge \<Rightarrow> 64 word \<Rightarrow> Charge outcome" where
  "Charge_Mul p qty =
     bindO (Multiply (Price p) qty)
       (\<lambda>pr. bindO (Multiply (Value p) qty) (\<lambda>v. Returns (p\<lparr>Price := pr, Value := v\<rparr>)))"

text \<open>\<open>NewCharges\<close> (through \<open>addChargeQualifier\<close>) makes a new map.\<close>

definition NewCharges :: "(string \<times> Charge) list \<Rightarrow> heap \<Rightarrow> Charges \<times> heap" where
  "NewCharges chargesByType h =
     (case make_map h of (a, h') \<Rightarrow>
        (\<lparr>chargesByQualifier = Some a\<rparr>,
         foldl (\<lambda>hh (chargeType, charge).
                  store hh a (ChargeQualifier chargeType (Reference charge)) charge)
               h' chargesByType))"

definition HasType :: "Charges \<Rightarrow> string \<Rightarrow> heap \<Rightarrow> bool" where
  "HasType c ctype h =
     list_ex (\<lambda>(q, ch). case q of ChargeQualifier t r \<Rightarrow> t = ctype)
       (entries h (chargesByQualifier c))"

fun GetByType_loop :: "string \<Rightarrow> charge_map \<Rightarrow> Charge \<Rightarrow> Charge outcome" where
  "GetByType_loop ctype [] result = Returns result"
| "GetByType_loop ctype ((ChargeQualifier t r, charge) # rest) result =
     (if t = ctype
      then (case Charge_Add result charge of
              Panics \<Rightarrow> Panics
            | Returns (result', err) \<Rightarrow> GetByType_loop ctype rest result')
      else GetByType_loop ctype rest result)"

definition GetByType :: "Charges \<Rightarrow> string \<Rightarrow> heap \<Rightarrow> (Charge \<times> bool) outcome" where
  "GetByType c ctype h =
     (if \<not> HasType c ctype h then Returns (Charge0, False)
      else bindO (GetByType_loop ctype (entries h (chargesByQualifier c))
                    (Charge0\<lparr>Type := ctype\<rparr>))
             (\<lambda>result. Returns (result, True)))"

definition HasChargeQualifier :: "Charges \<Rightarrow> ChargeQualifier \<Rightarrow> heap \<Rightarrow> bool" where
  "HasChargeQualifier c qualifier h =
     (map_of (entries h (chargesByQualifier c)) qualifier \<noteq> None)"

definition GetByChargeQualifier :: "Charges \<Rightarrow> ChargeQualifier \<Rightarrow> heap \<Rightarrow> Charge \<times> bool" where
  "GetByChargeQualifier c qualifier h =
     (if \<not> HasChargeQualifier c qualifier h then (Charge0, False)
      else case map_of (entries h (chargesByQualifier c)) qualifier of
             Some charge \<Rightarrow> (charge, True)
           | None \<Rightarrow> (Charge0, False))"

text \<open>
  The mutators take the receiver by value, which copies the address of the map, not the
  map: only a \<open>nil\<close> map is replaced by a new one.
\<close>

definition ensure_map :: "Charges \<Rightarrow> heap \<Rightarrow> nat \<times> heap" where
  "ensure_map c h =
     (case chargesByQualifier c of None \<Rightarrow> make_map h | Some a \<Rightarrow> (a, h))"

definition put_charge :: "nat \<Rightarrow> ChargeQualifier \<Rightarrow> Charge \<Rightarrow> heap \<Rightarrow> heap outcome" where
  "put_charge a qualifier toadd h =
     (case map_of (entries h (Some a)) qualifier of
        Some existingCharge \<Rightarrow>
          bindO (Charge_Add existingCharge toadd)
            (\<lambda>(chargeSum, err).
               bindO (Charge_GetPayable chargeSum)
                 (\<lambda>payable. Returns (store h a qualifier payable)))
      | None \<Rightarrow> Returns (store h a qualifier toadd))"

definition AddCharge :: "Charges \<Rightarrow> Charge \<Rightarrow> heap \<Rightarrow> (Charges \<times> heap) outcome" where
  "AddCharge c toadd h =
     (case ensure_map c h of (a, h1) \<Rightarrow>
        let qualifier = ChargeQualifier (Type toadd) (Reference toadd)
        in bindO (put_charge a qualifier toadd h1)
             (\<lambda>h2. Returns (\<lparr>chargesByQualifier = Some a\<rparr>, h2)))"

fun Charges_Add_loop :: "nat \<Rightarrow> charge_map \<Rightarrow> heap \<Rightarrow> heap outcome" where
  "Charges_Add_loop a [] h = Returns h"
| "Charges_Add_loop a ((addk, addCharge) # rest) h =
     (case put_charge a addk addCharge h of
        Panics \<Rightarrow> Panics
      | Returns h' \<Rightarrow> Charges_Add_loop a rest h')"

definition Charges_Add :: "Charges \<Rightarrow> Charges \<Rightarrow> heap \<Rightarrow> (Charges \<times> heap) outcome" where
  "Charges_Add c toadd h =
     (case ensure_map c h of (a, h1) \<Rightarrow>
        bindO (Charges_Add_loop a (entries h1 (chargesByQualifier toadd)) h1)
          (\<lambda>h2. Returns (\<lparr>chargesByQualifier = Some a\<rparr>, h2)))"

fun Charges_Mul_loop :: "nat \<Rightarrow> 64 word \<Rightarrow> charge_map \<Rightarrow> heap \<Rightarrow> heap outcome" where
  "Charges_Mul_loop a qty [] h = Returns h"
| "Charges_Mul_loop a qty ((t, charge) # rest) h =
     (case Charge_Mul charge qty of
        Panics \<Rightarrow> Panics
      | Returns m \<Rightarrow> Charges_Mul_loop a qty rest (store h a t m))"

definition Charges_Mul :: "Charges \<Rightarrow> 64 word \<Rightarrow> heap \<Rightarrow> (Charges \<times> heap) outcome" where
  "Charges_Mul c qty h =
     (case chargesByQualifier c of
        None \<Rightarrow> Returns (c, h)
      | Some a \<Rightarrow>
          bindO (Charges_Mul_loop a qty (entries h (Some a)) h) (\<lambda>h'. Returns (c, h')))"

section \<open>Expressions of the test suite\<close>

text \<open>
  The tests build an amount from a float64 and round it in one expression,
  \<open>NewFromFloat(x, "EUR").GetPayableByRoundingMode(mode, precision)\<close> and
  \<open>NewFromFloat(x, "EUR").GetPayable()\<close>.
\<close>

definition round_float :: "float64 \<Rightarrow> string \<Rightarrow> 64 word \<Rightarrow> Price outcome" where
  "round_float x mode precision =
     bindO (NewFromFloat x ''EUR'') (\<lambda>p. GetPayableByRoundingMode p mode precision)"

definition payable_float :: "float64 \<Rightarrow> Price outcome" where
  "payable_float x = bindO (NewFromFloat x ''EUR'') GetPayable"

section \<open>Evaluation by rewriting\<close>

text \<open>
  The definitions are unfolded only at closed arguments (numerals, record and constructor
  terms), so that the simplifier computes a call from the inside out.
\<close>

definition bitLenI :: "nat \<Rightarrow> int \<Rightarrow> int" where
  "bitLenI n k = int (bitLen n) + k"

lemma bitLen_0: "bitLen 0 = 0"
  by (simp add: bitLen.simps)

lemma bitLen_1: "bitLen 1 = 1"
  by (simp add: bitLen.simps)

lemma bitLen_Suc0: "bitLen (Suc 0) = 1"
  by (simp add: bitLen.simps)

lemma bitLen_numeral: "bitLen (numeral n) = nat (bitLenI (numeral n) 0)"
  by (simp add: bitLenI_def)

lemma bitLenI_0: "bitLenI 0 k = k"
  by (simp add: bitLenI_def bitLen.simps)

lemma bitLenI_1: "bitLenI 1 k = k + 1"
  by (simp add: bitLenI_def bitLen.simps)

lemma bitLenI_Suc0: "bitLenI (Suc 0) k = k + 1"
  by (simp add: bitLenI_def bitLen.simps)

lemma bitLenI_B0: "bitLenI (numeral (Num.Bit0 n)) k = bitLenI (numeral n) (k + 1)"
  unfolding bitLenI_def by (subst bitLen.simps) (simp add: numeral_Bit0_div_2)

lemma bitLenI_B1: "bitLenI (numeral (Num.Bit1 n)) k = bitLenI (numeral n) (k + 1)"
  unfolding bitLenI_def by (subst bitLen.simps) (simp add: numeral_Bit1_div_2)

lemma strip2_0: "strip2 0 e = (0, 0)"
  by (simp add: strip2.simps)

lemma strip2_1: "strip2 1 e = (1, e)"
  by (simp add: strip2.simps)

lemma strip2_Suc0: "strip2 (Suc 0) e = (Suc 0, e)"
  by (simp add: strip2.simps)

lemma strip2_B0: "strip2 (numeral (Num.Bit0 n)) e = strip2 (numeral n) (e + 1)"
  by (subst strip2.simps) (simp add: numeral_Bit0_div_2)

lemma strip2_B1: "strip2 (numeral (Num.Bit1 n)) e = (numeral (Num.Bit1 n), e)"
  by (subst strip2.simps) simp

lemmas num_eval =
  bitLen_0 bitLen_1 bitLen_Suc0 bitLen_numeral bitLenI_0 bitLenI_1 bitLenI_Suc0 bitLenI_B0
  bitLenI_B1 strip2_0 strip2_1 strip2_Suc0 strip2_B0 strip2_B1
  rne_shift_def ucmp_def quo_sticky_def goExp_def round_mag_def setExpAndRound_def MaxExp_def
  MinExp_def MaxInt64_def MinInt64_def is_int64_def round_f64_def f64_of_ratio_def Let_def
  umax32_def zprec_def Float0_def uadd_def usub_def go_quot_def go_rem_def

lemmas int_eval =
  SetInt64_def [of 0] SetInt64_def [of 1] SetInt64_def [of "numeral n"]
  SetInt64_def [of "- numeral n"] SetInt64_def [of "- 1"]
  wrap64_def [of 0] wrap64_def [of 1] wrap64_def [of "numeral n"]
  wrap64_def [of "- numeral n"] wrap64_def [of "- 1"]
  float64_of_int_def [of 0] float64_of_int_def [of 1] float64_of_int_def [of "numeral n"]
  float64_of_int_def [of "- numeral n"] float64_of_int_def [of "- 1"]
  for n

lemmas float_eval =
  Set_prec_def [of _ "\<lparr>prec = p1, neg = n1, form = f1\<rparr>"]
  Float_Set_def [of _ "\<lparr>prec = p1, neg = n1, form = f1\<rparr>"]
  Float_Abs_def [of _ "\<lparr>prec = p1, neg = n1, form = f1\<rparr>"]
  Neg_prec_def [of _ "\<lparr>prec = p1, neg = n1, form = f1\<rparr>"]
  Float_Copy_def
  Float_Add_def [of _ "\<lparr>prec = p1, neg = n1, form = f1\<rparr>" "\<lparr>prec = p2, neg = n2, form = f2\<rparr>"]
  Float_Sub_def [of _ "\<lparr>prec = p1, neg = n1, form = f1\<rparr>" "\<lparr>prec = p2, neg = n2, form = f2\<rparr>"]
  Float_Mul_def [of _ "\<lparr>prec = p1, neg = n1, form = f1\<rparr>" "\<lparr>prec = p2, neg = n2, form = f2\<rparr>"]
  Float_Quo_def [of _ "\<lparr>prec = p1, neg = n1, form = f1\<rparr>" "\<lparr>prec = p2, neg = n2, form = f2\<rparr>"]
  Float_Cmp_def [of "\<lparr>prec = p1, neg = n1, form = f1\<rparr>" "\<lparr>prec = p2, neg = n2, form = f2\<rparr>"]
  ord_def [of "\<lparr>prec = p1, neg = n1, form = f1\<rparr>"]
  Float64_def [of "\<lparr>prec = p1, neg = n1, form = f1\<rparr>"]
  f64_gt_def
  for p1 n1 f1 p2 n2 f2

lemmas price_eval =
  RoundingModeFloor_def RoundingModeCeil_def RoundingModeHalfUp_def RoundingModeHalfDown_def
  NewFromFloat_def NewFromBigFloat_def NewZero_def blank_Price_def NewFromInt_def
  Currency_def Amount_def precisionF_def lower_byte_def ToLower_def
  Clone_def [of "\<lparr>amount = a, currency = c\<rparr>"]
  Equal_def [of "\<lparr>amount = a, currency = c\<rparr>" "\<lparr>amount = a', currency = c'\<rparr>"]
  LikelyEqual_def [of "\<lparr>amount = a, currency = c\<rparr>" "\<lparr>amount = a', currency = c'\<rparr>"]
  IsLessThenValue_def [of "\<lparr>amount = a, currency = c\<rparr>"]
  IsNegative_def [of "\<lparr>amount = a, currency = c\<rparr>"]
  IsZero_def [of "\<lparr>amount = a, currency = c\<rparr>"]
  currencyGuard_def [of "\<lparr>amount = a, currency = c\<rparr>" "\<lparr>amount = a', currency = c'\<rparr>"]
  Add_def [of "\<lparr>amount = a, currency = c\<rparr>" "\<lparr>amount = a', currency = c'\<rparr>"]
  Sub_def [of "\<lparr>amount = a, currency = c\<rparr>" "\<lparr>amount = a', currency = c'\<rparr>"]
  Inverse_def [of "\<lparr>amount = a, currency = c\<rparr>"]
  Multiply_def [of "\<lparr>amount = a, currency = c\<rparr>"]
  payableRoundingPrecision_def [of "\<lparr>amount = a, currency = c\<rparr>"]
  GetPayableByRoundingMode_def [of "\<lparr>amount = a, currency = c\<rparr>"]
  GetPayable_def [of "\<lparr>amount = a, currency = c\<rparr>"]
  SplitInPayables_def [of "\<lparr>amount = a, currency = c\<rparr>"]
  SumAll_def [of "[]"] SumAll_def [of "x # xs"]
  for a c a' c' x xs

lemmas loop_eval =
  set_at_def [of "[]"] set_at_def [of "x # xs"] get_at_def [of "[]"] get_at_def [of "x # xs"]
  for_loop.simps [of _ 0] for_loop.simps [of _ 1] for_loop.simps [of _ "numeral n"]
  for_loop.simps [of _ "- numeral n"] for_loop.simps [of _ "- 1"]
  for x xs n

lemma list_update_Cons_numeral:
  "(x # xs)[numeral v := y] = x # xs[numeral v - 1 := y]"
  by (simp add: numeral_eq_Suc)

lemma replicate_numeral: "replicate (numeral v) x = x # replicate (numeral v - 1) x"
  by (simp add: numeral_eq_Suc)

lemmas text_eval =
  digits_acc.simps [of 0] digits_acc.simps [of 1] digits_acc.simps [of "Suc 0"]
  digits_acc.simps [of "numeral n"]
  trim_def [of "(ds, x)"] decimal_init_def shouldRoundUp_def [of "(ds, x)"]
  roundUp_def [of "(ds, x)"] roundDown_def [of "(ds, x)"] decimal_round_def [of "(ds, x)"]
  digit_char_def [of 0] digit_char_def [of "Suc 0"] digit_char_def [of "numeral n"]
  fmtE_def [of _ "(ds, x)"] fmtF_def [of _ "(ds, x)"]
  Float_String_def [of "\<lparr>prec = p1, neg = n1, form = f1\<rparr>"]
  is_digit_def digit_val_def digits_val_def [of "[]"] digits_val_def [of "c # cs"]
  scanSign_def [of "[]"] scanSign_def [of "c # cs"]
  scanMantissa_def [of "[]"] scanMantissa_def [of "c # cs"]
  scanExponent_def [of "[]"] scanExponent_def [of "c # cs"]
  pow5_loop.simps [of 0] pow5_loop.simps [of 1] pow5_loop.simps [of "Suc 0"]
  pow5_loop.simps [of "numeral n"]
  pow5_def [of _ 0] pow5_def [of _ 1] pow5_def [of _ "Suc 0"] pow5_def [of _ "numeral n"]
  Float_Parse_def [of "[]"] Float_Parse_def [of "c # cs"]
  MarshalText_def [of "\<lparr>amount = a, currency = cu\<rparr>"]
  UnmarshalText_def [of _ "\<lparr>pjAmount = s, pjCurrency = cu\<rparr>"]
  for n ds x p1 n1 f1 c cs a cu s

lemmas charges_eval =
  Charge0_def make_map_def entries_def store_def ensure_map_def
  Charge_Add_def [of "\<lparr>Price = p, Value = v, Type = t, Reference = r\<rparr>"
                     "\<lparr>Price = p', Value = v', Type = t', Reference = r'\<rparr>"]
  Charge_GetPayable_def [of "\<lparr>Price = p, Value = v, Type = t, Reference = r\<rparr>"]
  Charge_Mul_def [of "\<lparr>Price = p, Value = v, Type = t, Reference = r\<rparr>"]
  NewCharges_def [of "[]"] NewCharges_def [of "x # xs"]
  HasType_def [of "\<lparr>chargesByQualifier = a\<rparr>"]
  GetByType_def [of "\<lparr>chargesByQualifier = a\<rparr>"]
  HasChargeQualifier_def [of "\<lparr>chargesByQualifier = a\<rparr>"]
  GetByChargeQualifier_def [of "\<lparr>chargesByQualifier = a\<rparr>"]
  put_charge_def [of _ "ChargeQualifier t r"]
  AddCharge_def [of "\<lparr>chargesByQualifier = a\<rparr>"
                   "\<lparr>Price = p, Value = v, Type = t, Reference = r\<rparr>"]
  Charges_Add_def [of "\<lparr>chargesByQualifier = a\<rparr>" "\<lparr>chargesByQualifier = a'\<rparr>"]
  Charges_Mul_def [of "\<lparr>chargesByQualifier = a\<rparr>"]
  for p v t r p' v' t' r' x xs a a'

lemmas eval = round_float_def payable_float_def num_eval int_eval float_eval price_eval loop_eval list_update_Cons_numeral
  replicate_numeral text_eval charges_eval

section \<open>The rounding boundary table (claim C3)\<close>

lemma C3_halfup_1:
  "round_float (f64_of_ratio False 75 10) RoundingModeHalfUp 1 = NewFromInt 8 1 ''EUR''"
  by (simp add: eval)

lemma C3_halfup_2:
  "round_float (f64_of_ratio False 74 10) RoundingModeHalfUp 1 = NewFromInt 7 1 ''EUR''"
  by (simp add: eval)

lemma C3_halfup_3:
  "round_float (f64_of_ratio True 75 10) RoundingModeHalfUp 1 = NewFromInt (- 8) 1 ''EUR''"
  by (simp add: eval)

lemma C3_halfup_4:
  "round_float (f64_of_ratio True 745 100) RoundingModeHalfUp 1 = NewFromInt (- 7) 1 ''EUR''"
  by (simp add: eval)

lemma C3_halfdown_1:
  "round_float (f64_of_ratio False 75 10) RoundingModeHalfDown 1 = NewFromInt 7 1 ''EUR''"
  by (simp add: eval)

lemma C3_halfdown_2:
  "round_float (f64_of_ratio True 75 10) RoundingModeHalfDown 1 = NewFromInt (- 7) 1 ''EUR''"
  by (simp add: eval)

lemma C3_floor_1:
  "round_float (f64_of_ratio False 1234567 100000) RoundingModeFloor 100
     = NewFromInt 1234 100 ''EUR''"
  by (simp add: eval)

lemma C3_floor_2:
  "round_float (f64_of_ratio True 1234567 100000) RoundingModeFloor 100
     = NewFromInt (- 1235) 100 ''EUR''"
  by (simp add: eval)

lemma C3_ceil_1:
  "round_float (f64_of_ratio False 1234567 100000) RoundingModeCeil 100
     = NewFromInt 1235 100 ''EUR''"
  by (simp add: eval)

lemma C3_ceil_2:
  "round_float (f64_of_ratio True 1234567 100000) RoundingModeCeil 100
     = NewFromInt (- 1234) 100 ''EUR''"
  by (simp add: eval)

lemma round_7_5_halfup_10:
  "round_float (f64_of_ratio False 75 10) RoundingModeHalfUp 10 =
     Returns \<lparr>amount = \<lparr>prec = 64, neg = False, form = form_finite 15 (- 1)\<rparr>,
              currency = ''EUR''\<rparr>"
  by (simp add: eval)

lemma NewFromInt_8:
  "NewFromInt 8 1 ''EUR'' =
     Returns \<lparr>amount = \<lparr>prec = 64, neg = False, form = form_finite 1 3\<rparr>,
              currency = ''EUR''\<rparr>"
  by (simp add: eval)

text \<open>
  Claim C3, as stated, puts the HalfUp rows at precision 10. At precision 10 the amount 7.5
  (the float64 \<open>15 * 2 ^ - 1\<close>) is already payable and comes back as 7.5, not as 8
  (\<open>1 * 2 ^ 3\<close>).
\<close>

theorem C3_precision_10_counterexample:
  "round_float (f64_of_ratio False 75 10) RoundingModeHalfUp 10 =
     Returns \<lparr>amount = \<lparr>prec = 64, neg = False, form = form_finite 15 (- 1)\<rparr>,
              currency = ''EUR''\<rparr>
   \<and> round_float (f64_of_ratio False 75 10) RoundingModeHalfUp 10 \<noteq> NewFromInt 8 1 ''EUR''"
  by (simp add: round_7_5_halfup_10 NewFromInt_8)

text \<open>
  Claim C3, amended: the table holds with the HalfUp and HalfDown rows at precision 1 (as the
  tests of the repository have them) and the Floor and Ceiling rows at precision 100. Under
  HalfUp 7.5 rounds to 8, 7.4 to 7, -7.5 to -8 and -7.45 to -7; under HalfDown 7.5 rounds to 7
  and -7.5 to -7; under Floor 12.34567 rounds to 12.34 and -12.34567 to -12.35; under Ceiling
  12.34567 rounds to 12.35 and -12.34567 to -12.34. Each result is the amount that
  \<open>NewFromInt\<close> builds from the expected number of smallest units.
\<close>

theorem C3_rounding_table:
  "round_float (f64_of_ratio False 75 10) RoundingModeHalfUp 1 = NewFromInt 8 1 ''EUR''
   \<and> round_float (f64_of_ratio False 74 10) RoundingModeHalfUp 1 = NewFromInt 7 1 ''EUR''
   \<and> round_float (f64_of_ratio True 75 10) RoundingModeHalfUp 1 = NewFromInt (- 8) 1 ''EUR''
   \<and> round_float (f64_of_ratio True 745 100) RoundingModeHalfUp 1 = NewFromInt (- 7) 1 ''EUR''
   \<and> round_float (f64_of_ratio False 75 10) RoundingModeHalfDown 1 = NewFromInt 7 1 ''EUR''
   \<and> round_float (f64_of_ratio True 75 10) RoundingModeHalfDown 1 = NewFromInt (- 7) 1 ''EUR''
   \<and> round_float (f64_of_ratio False 1234567 100000) RoundingModeFloor 100
         = NewFromInt 1234 100 ''EUR''
   \<and> round_float (f64_of_ratio True 1234567 100000) RoundingModeFloor 100
         = NewFromInt (- 1235) 100 ''EUR''
   \<and> round_float (f64_of_ratio False 1234567 100000) RoundingModeCeil 100
         = NewFromInt 1235 100 ''EUR''
   \<and> round_float (f64_of_ratio True 1234567 100000) RoundingModeCeil 100
         = NewFromInt (- 1234) 100 ''EUR''"
  by (intro conjI C3_halfup_1 C3_halfup_2 C3_halfup_3 C3_halfup_4 C3_halfdown_1 C3_halfdown_2
      C3_floor_1 C3_floor_2 C3_ceil_1 C3_ceil_2)

end
